theory Spec2Isabelle
  imports Complex_Main "HOL-Library.Sublist"
begin

section \<open>Python primitives used by bmi.py\<close>

text \<open>
  A Python float that is a number is the real it denotes. In the BMI calculation the
  operations \<open>**\<close>, \<open>/\<close> and \<open>*\<close> are those of IEEE 754 doubles, with their rounding,
  overflow and underflow (see \<open>round_double\<close> below). The other formulas of the program
  (validation, ideal weight, the energy planner) are read as exact arithmetic on reals, and
  the texts \<open>inf\<close> and \<open>nan\<close> are not among the numbers a form can hold.
  Python's unbounded \<open>int\<close> is \<open>int\<close>; \<open>str\<close> is a list of 8-bit characters, a non-ASCII
  character of a literal being written as its UTF-8 bytes.
\<close>

datatype error = ZeroDivisionError | ValueError | OverflowError

text \<open>\<open>round(x)\<close> with one argument: nearest integer, a tie goes to the even neighbour.\<close>

definition py_round :: "real \<Rightarrow> int" where
  "py_round x =
     (let f = \<lfloor>x\<rfloor>; d = x - of_int f in
      if d < 1 / 2 then f
      else if 1 / 2 < d then f + 1
      else if even f then f else f + 1)"

text \<open>
  The value of a double expression: a finite number, an infinity or NaN. The sign of a zero
  is not kept.
\<close>

datatype pyfloat = Fin real | PosInf | NegInf | NaN

text \<open>
  Rounding of a real to the nearest double, a tie going to the even significand. Doubles
  have 53 significant bits: in the binade \<open>2^e \<le> \<bar>x\<bar> < 2^(e+1)\<close> they are the multiples of
  \<open>2^(e-52)\<close>, and below \<open>2^(-1022)\<close>, where the subnormal numbers lie, the multiples of
  \<open>2^(-1074)\<close>. \<open>round_double\<close> rounds as if the exponent had no upper bound; \<open>fl\<close> then
  gives the infinity of the sign when the rounded magnitude reaches \<open>2^1024\<close>.
\<close>

definition expo :: "real \<Rightarrow> int" where
  "expo x = max \<lfloor>log 2 \<bar>x\<bar>\<rfloor> (- 1022)"

definition ulp :: "real \<Rightarrow> real" where
  "ulp x = 2 powi (expo x - 52)"

definition round_double :: "real \<Rightarrow> real" where
  "round_double x = (if x = 0 then 0 else of_int (py_round (x / ulp x)) * ulp x)"

definition fl :: "real \<Rightarrow> pyfloat" where
  "fl x =
     (let r = round_double x in
      if 2 ^ 1024 \<le> r then PosInf else if r \<le> - (2 ^ 1024) then NegInf else Fin r)"

text \<open>
  \<open>a / b\<close> on two floats that are numbers: \<open>ZeroDivisionError\<close> for a zero divisor, and
  otherwise the rounded quotient, an infinity when it overflows (the division does not
  raise then).
\<close>

definition float_div :: "real \<Rightarrow> real \<Rightarrow> error + pyfloat" where
  "float_div a b = (if b = 0 then Inl ZeroDivisionError else Inr (fl (a / b)))"

text \<open>\<open>a * b\<close> for a float \<open>a\<close> and a number \<open>b\<close>; it never raises.\<close>

fun float_mul :: "pyfloat \<Rightarrow> real \<Rightarrow> pyfloat" where
  "float_mul (Fin a) b = fl (a * b)"
| "float_mul PosInf b = (if 0 < b then PosInf else if b < 0 then NegInf else NaN)"
| "float_mul NegInf b = (if 0 < b then NegInf else if b < 0 then PosInf else NaN)"
| "float_mul NaN b = NaN"

text \<open>\<open>round(x, 2)\<close>.\<close>

definition py_round2 :: "real \<Rightarrow> real" where
  "py_round2 x = of_int (py_round (x * 100)) / 100"

text \<open>\<open>x // y\<close> and \<open>x % y\<close> on floats, for a divisor that is not zero.\<close>

definition py_floordiv :: "real \<Rightarrow> real \<Rightarrow> real" where
  "py_floordiv x y = of_int \<lfloor>x / y\<rfloor>"

definition py_mod :: "real \<Rightarrow> real \<Rightarrow> real" where
  "py_mod x y = x - of_int \<lfloor>x / y\<rfloor> * y"

text \<open>\<open>int(x)\<close> on a float truncates towards zero.\<close>

definition py_int_of_float :: "real \<Rightarrow> int" where
  "py_int_of_float x = (if 0 \<le> x then \<lfloor>x\<rfloor> else \<lceil>x\<rceil>)"

definition digit_char :: "nat \<Rightarrow> char" where
  "digit_char d = ''0123456789'' ! d"

fun str_nat :: "nat \<Rightarrow> string" where
  "str_nat n = (if n < 10 then [digit_char n] else str_nat (n div 10) @ [digit_char (n mod 10)])"

declare str_nat.simps [simp del]

text \<open>\<open>str(n)\<close> of an int, as an f-string renders it.\<close>

definition str_int :: "int \<Rightarrow> string" where
  "str_int i = (if i < 0 then ''-'' @ str_nat (nat (- i)) else str_nat (nat i))"

text \<open>
  The format specification \<open>:.kf\<close>: \<open>k\<close> digits after the point, none and no point for
  \<open>k = 0\<close>.
\<close>

definition fmt_f :: "nat \<Rightarrow> real \<Rightarrow> string" where
  "fmt_f k x =
     (let a = nat \<bar>py_round (x * 10 ^ k)\<bar>;
          fp = str_nat (a mod 10 ^ k) in
      (if x < 0 then ''-'' else []) @ str_nat (a div 10 ^ k) @
      (if k = 0 then [] else ''.'' @ replicate (k - length fp) (CHR ''0'') @ fp))"

definition nl :: string where
  "nl = [CHR 0x0A]"

text \<open>\<open>str.lower\<close> and \<open>str.strip\<close> on ASCII text.\<close>

definition lower_char :: "char \<Rightarrow> char" where
  "lower_char c =
     (let n = of_char c :: nat in if 65 \<le> n \<and> n \<le> 90 then char_of (n + 32) else c)"

definition lower :: "string \<Rightarrow> string" where
  "lower s = map lower_char s"

definition is_space :: "char \<Rightarrow> bool" where
  "is_space c = (let n = of_char c :: nat in (9 \<le> n \<and> n \<le> 13) \<or> (28 \<le> n \<and> n \<le> 32))"

definition strip :: "string \<Rightarrow> string" where
  "strip s = rev (dropWhile is_space (rev (dropWhile is_space s)))"

text \<open>\<open>sub in s\<close> on strings.\<close>

definition contains :: "string \<Rightarrow> string \<Rightarrow> bool" where
  "contains s sub = sublist sub s"

text \<open>
  The conversions \<open>float(s)\<close> and \<open>int(s)\<close> of a string, which raise \<open>ValueError\<close> (here
  \<open>None\<close>) on text that is not a number, and the \<open>repr\<close> of a float that an f-string prints,
  are builtins of the language; the program is modelled for any such functions. So is
  \<open>x ** n\<close> on a float \<open>x\<close> that is a number: CPython hands it to the \<open>pow\<close> of the C library,
  whose last bit differs between platforms, and raises \<open>OverflowError\<close> when that reports a
  range error; a result that underflows to \<open>0.0\<close> is returned as it is. The
  environment also gives the clock, as \<open>datetime.now().strftime("%Y-%m-%d %H:%M")\<close> reads
  it, and whether opening the history file for writing succeeds.
\<close>

record env =
  py_float :: "string \<Rightarrow> real option"
  py_int :: "string \<Rightarrow> int option"
  py_pow :: "real \<Rightarrow> int \<Rightarrow> error + real"
  float_repr :: "real \<Rightarrow> string"
  now_str :: string
  file_writable :: bool

section \<open>Style and the constants of the application class\<close>

definition BG_CARD :: string where "BG_CARD = ''white''"
definition COLOR_ACCENT_GREEN :: string where "COLOR_ACCENT_GREEN = ''#4CAF50''"
definition COLOR_ACCENT_BLUE :: string where "COLOR_ACCENT_BLUE = ''#1E90FF''"
definition COLOR_DANGER :: string where "COLOR_DANGER = ''#FF4500''"
definition COLOR_WARNING :: string where "COLOR_WARNING = ''#FFD700''"

definition BMI_MIN_NORMAL :: real where "BMI_MIN_NORMAL = 18.5"
definition BMI_MAX_NORMAL :: real where "BMI_MAX_NORMAL = 24.9"
definition BMI_EXTREME_LOW :: real where "BMI_EXTREME_LOW = 16.0"
definition BMI_EXTREME_HIGH :: real where "BMI_EXTREME_HIGH = 35.0"
definition WATER_GOAL_ML :: int where "WATER_GOAL_ML = 2500"

definition ACTIVITY_MULTIPLIERS :: "(string \<times> real) list" where
  "ACTIVITY_MULTIPLIERS =
     [(''Sedentary'', 1.2), (''Lightly Active'', 1.375), (''Moderately Active'', 1.55),
      (''Very Active'', 1.725), (''Extra Active'', 1.9)]"

definition ACTIVITY_OPTIONS :: "string list" where
  "ACTIVITY_OPTIONS = map fst ACTIVITY_MULTIPLIERS"

definition DIET_OPTIONS :: "string list" where
  "DIET_OPTIONS = [''Omnivore'', ''Vegetarian'', ''Vegan'']"

text \<open>\<open>d.get(k, default)\<close> on a dict written as an association list.\<close>

definition dict_get :: "('k \<times> 'v) list \<Rightarrow> 'k \<Rightarrow> 'v \<Rightarrow> 'v" where
  "dict_get d k dflt = (case map_of d k of Some v \<Rightarrow> v | None \<Rightarrow> dflt)"

section \<open>BMI calculation and categorisation\<close>

text \<open>
  \<open>perform_calculation\<close>: any unit other than \<open>'metric'\<close> takes the imperial branch. The
  three operations are double operations. \<open>height ** 2\<close> raises \<open>OverflowError\<close> when the
  square is too large for a double; the division raises \<open>ZeroDivisionError\<close> when the
  square is \<open>0.0\<close>, which it is for a height of zero and for a positive height so small
  that its square underflows. The quotient and the product are rounded, and are an
  infinity when they overflow.
\<close>

definition perform_calculation :: "env \<Rightarrow> real \<Rightarrow> real \<Rightarrow> string \<Rightarrow> error + pyfloat" where
  "perform_calculation E weight height unit =
     (if unit = ''metric'' then
        (case py_pow E height 2 of
           Inl e \<Rightarrow> Inl e
         | Inr h2 \<Rightarrow> float_div weight h2)
      else
        (case py_pow E height 2 of
           Inl e \<Rightarrow> Inl e
         | Inr h2 \<Rightarrow>
             (case float_div weight h2 of
                Inl e \<Rightarrow> Inl e
              | Inr q \<Rightarrow> Inr (float_mul q 703))))"

text \<open>The double exclamation mark with its variation selector, U+203C U+FE0F, in UTF-8.\<close>

definition double_bang :: string where
  "double_bang = [CHR 0xE2, CHR 0x80, CHR 0xBC, CHR 0xEF, CHR 0xB8, CHR 0x8F]"

definition alert_msg :: "real \<Rightarrow> string" where
  "alert_msg bmi =
     double_bang @ '' **SEVERE HEALTH RISK INDICATOR:** Your BMI is '' @ fmt_f 2 bmi @
     ''. **This tool suggests your value is critically outside the norm.** Seek immediate medical guidance. ''"

text \<open>
  \<open>categorize_bmi\<close> returns the tuple
  \<open>(category, color, description, bg_color, warning, benefit)\<close>. The parameter \<open>unit\<close> is
  not read by the body.
\<close>

definition categorize_bmi ::
  "real \<Rightarrow> string \<Rightarrow> string \<Rightarrow> int \<Rightarrow> string \<times> string \<times> string \<times> string \<times> string \<times> string" where
  "categorize_bmi bmi gender unit age =
     (let warning_prefix = [];
          (category, color, bg_color) =
            (if bmi < 18.5 then (''Underweight'', COLOR_ACCENT_BLUE, ''#E3F2FD'')
             else if 18.5 \<le> bmi \<and> bmi < 25.0 then (''Normal Weight'', COLOR_ACCENT_GREEN, ''#E8F5E9'')
             else if 25.0 \<le> bmi \<and> bmi < 30.0 then (''Overweight'', COLOR_WARNING, ''#FFFDE7'')
             else (''Obesity'', COLOR_DANGER, ''#FFEBEE''));
          (warning_prefix, color, bg_color) =
            (if bmi < BMI_EXTREME_LOW \<or> bmi > BMI_EXTREME_HIGH
             then (alert_msg bmi, COLOR_DANGER, ''#FFCDD2'')
             else (warning_prefix, color, bg_color));
          (warning, benefit) =
            (if category = ''Underweight'' then
               (warning_prefix @ ''Possible risks: Weakened immune system, anemia, osteoporosis, and fertility issues. Consult a professional.'',
                ''Benefits of reaching normal weight: Improved energy, stronger bones, and better immune function. Focus on nutrient-dense calories.'')
             else if category = ''Normal Weight'' then
               (warning_prefix @ ''Maintain healthy habits. As a '' @ lower gender @
                  '', ensure adequate protein intake, especially after age 40 (for '' @ str_int age @ '' year old).'',
                ''Benefits: Lowest risk of major chronic diseases, better mobility, and higher life expectancy.'')
             else if category = ''Overweight'' then
               (warning_prefix @ ''Increased risk of: Type 2 diabetes, high blood pressure, and joint problems. Prioritize consistent calorie deficit and activity.'',
                ''Benefits of losing weight: Lower blood pressure, better sleep quality, improved energy levels, and reduced joint strain.'')
             else
               (warning_prefix @ ''High risk of: Severe cardiovascular disease, stroke, sleep apnea, and reduced mobility. Start with low-impact activity immediately.'',
                ''Benefits of weight management: Dramatic reduction in disease risk, increased mobility, and improved overall mental health.''));
          description = ''Check warnings for details.''
      in (category, color, description, bg_color, warning, benefit))"

section \<open>The application state\<close>

text \<open>
  The dict that \<open>validate_and_get_inputs\<close> builds; \<open>calculate_bmi_gui\<close> adds the keys
  \<open>category\<close> and \<open>bmi\<close>, absent (\<open>None\<close>) before.
\<close>

record inputs =
  name :: string
  weight :: real
  height :: real
  age :: int
  gender :: string
  activity :: string
  goal :: string
  diet :: string
  unit :: string
  category :: "string option"
  bmi :: "real option"

text \<open>A record of the history list, as \<open>save_history\<close> builds it.\<close>

record history_record =
  rec_date :: string
  rec_bmi :: real
  rec_category :: string
  rec_weight :: string
  rec_height :: string

text \<open>The history file: missing, unreadable as JSON, or holding a list of records.\<close>

datatype file_state = Missing | Corrupt | Stored "history_record list"

text \<open>
  The attributes of the application object that the calculation, history, hydration and query
  methods read or write. Entry widgets and Tk variables are the text or number they hold; a
  label is its text (with its foreground colour for the feedback label); \<open>current_inputs\<close>
  is \<open>None\<close> for the empty dict. \<open>dialogs\<close> collects the message boxes shown, title and
  text. Geometry, fonts and the colours of the other widgets are left out.
\<close>

record app =
  name_entry :: string
  weight_entry :: string
  metric_height_entry :: string
  ft_entry :: string
  in_entry :: string
  age_entry :: string
  unit_system :: string
  self_gender :: string
  activity_level :: string
  health_goal :: string
  diet_preference :: string
  water_intake_ml :: int
  water_add_ml :: string
  weight_label_text :: string
  height_label_text :: string
  current_inputs :: "inputs option"
  history :: "history_record list"
  history_file :: file_state
  dynamic_feedback_label :: "string \<times> string"
  bmi_value_label :: string
  category_label :: string
  ideal_weight_label :: string
  goal_diff_label :: string
  warning_label :: string
  benefit_label :: string
  result_frame_bg :: string
  dialogs :: "(string \<times> string) list"

definition warning_sign :: string where
  "warning_sign = [CHR 0xE2, CHR 0x9A, CHR 0xA0, CHR 0xEF, CHR 0xB8, CHR 0x8F]"

definition check_mark :: string where
  "check_mark = [CHR 0xE2, CHR 0x9C, CHR 0x85]"

definition cross_mark :: string where
  "cross_mark = [CHR 0xE2, CHR 0x9D, CHR 0x8C]"

definition light_bulb :: string where
  "light_bulb = [CHR 0xF0, CHR 0x9F, CHR 0x92, CHR 0xA1]"

text \<open>The state \<open>__init__\<close> sets up before it loads the history.\<close>

definition initial_app :: "file_state \<Rightarrow> app" where
  "initial_app f =
     \<lparr> name_entry = [], weight_entry = [], metric_height_entry = [], ft_entry = [],
       in_entry = [], age_entry = [],
       unit_system = ''metric'', self_gender = ''Male'',
       activity_level = ACTIVITY_OPTIONS ! 2, health_goal = ''Maintain Weight'',
       diet_preference = DIET_OPTIONS ! 0,
       water_intake_ml = 0, water_add_ml = ''250'',
       weight_label_text = ''Weight (kg):'', height_label_text = ''Height (m):'',
       current_inputs = None, history = [], history_file = f,
       dynamic_feedback_label = (light_bulb @ '' Enter your details to get started!'', COLOR_ACCENT_BLUE),
       bmi_value_label = ''---'', category_label = ''---'', ideal_weight_label = ''---'',
       goal_diff_label = [], warning_label = ''---'', benefit_label = ''---'',
       result_frame_bg = BG_CARD, dialogs = [] \<rparr>"

section \<open>Hydration, history and the form\<close>

text \<open>
  \<open>log_water_intake\<close>: the \<open>ValueError\<close> of \<open>int\<close> and the one raised for an amount that is
  not positive end in the same handler.
\<close>

definition log_water_intake :: "env \<Rightarrow> app \<Rightarrow> app" where
  "log_water_intake E s =
     (case py_int E (water_add_ml s) of
        None \<Rightarrow>
          s\<lparr>dialogs := dialogs s @
            [(''Input Error'', ''Please enter a valid positive number for water intake (ml).'')]\<rparr>
      | Some amount \<Rightarrow>
          if amount \<le> 0 then
            s\<lparr>dialogs := dialogs s @
              [(''Input Error'', ''Please enter a valid positive number for water intake (ml).'')]\<rparr>
          else
            (let current = water_intake_ml s in
             s\<lparr>water_intake_ml := current + amount, water_add_ml := ''250''\<rparr>))"

definition load_history :: "app \<Rightarrow> app" where
  "load_history s =
     (case history_file s of
        Stored h \<Rightarrow> s\<lparr>history := h\<rparr>
      | Corrupt \<Rightarrow>
          s\<lparr>history := [],
            dialogs := dialogs s @
              [(''History Load Error'', ''Could not load or parse BMI history file.'')]\<rparr>
      | Missing \<Rightarrow> s\<lparr>history := []\<rparr>)"

text \<open>The slice \<open>xs[-n:]\<close> for \<open>n > 0\<close>: the last \<open>n\<close> elements, all of a shorter list.\<close>

definition last_n :: "nat \<Rightarrow> 'a list \<Rightarrow> 'a list" where
  "last_n n xs = drop (length xs - n) xs"

text \<open>The imperial height string of \<open>save_history\<close> and of the health report.\<close>

definition ft_in_str :: "real \<Rightarrow> string" where
  "ft_in_str height_inches =
     (let feet = py_int_of_float (py_floordiv height_inches 12);
          inches = py_round (py_mod height_inches 12)
      in str_int feet @ '' ft '' @ str_int inches @ '' in'')"

definition new_record :: "env \<Rightarrow> inputs \<Rightarrow> real \<Rightarrow> string \<Rightarrow> history_record" where
  "new_record E inp b cat =
     (let (weight_str, height_str) =
            (if unit inp = ''metric''
             then (float_repr E (weight inp) @ '' kg'', fmt_f 2 (height inp) @ '' m'')
             else (float_repr E (weight inp) @ '' lbs'', ft_in_str (height inp)))
      in \<lparr> rec_date = now_str E, rec_bmi = py_round2 b, rec_category = cat,
           rec_weight = weight_str, rec_height = height_str \<rparr>)"

definition save_history :: "env \<Rightarrow> inputs \<Rightarrow> real \<Rightarrow> string \<Rightarrow> app \<Rightarrow> app" where
  "save_history E inp b cat s =
     (let h = last_n 20 (history s @ [new_record E inp b cat]);
          s1 = s\<lparr>history := h\<rparr>
      in if file_writable E then s1\<lparr>history_file := Stored h\<rparr>
         else s1\<lparr>dialogs := dialogs s1 @
                [(''History Save Error'', ''Could not save BMI history to file.'')]\<rparr>)"

definition clear_inputs :: "app \<Rightarrow> app" where
  "clear_inputs s =
     s\<lparr> name_entry := [], weight_entry := [], metric_height_entry := [], ft_entry := [],
        in_entry := [], age_entry := [],
        current_inputs := None,
        water_intake_ml := 0,
        bmi_value_label := ''---'', category_label := ''---'', ideal_weight_label := ''---'',
        goal_diff_label := [], warning_label := ''---'', benefit_label := ''---'',
        result_frame_bg := BG_CARD,
        dynamic_feedback_label :=
          (light_bulb @ '' Enter your details to get started!'', COLOR_ACCENT_BLUE) \<rparr>"

definition update_unit_labels :: "app \<Rightarrow> app" where
  "update_unit_labels s =
     clear_inputs
       (if unit_system s = ''metric''
        then s\<lparr>weight_label_text := ''Weight (kg):'', height_label_text := ''Height (m):''\<rparr>
        else s\<lparr>weight_label_text := ''Weight (lbs):'', height_label_text := ''Height:''\<rparr>)"

text \<open>\<open>float(t or 0)\<close>: the empty string is falsy, so \<open>float(0)\<close> is taken.\<close>

definition float_or_zero :: "env \<Rightarrow> string \<Rightarrow> real option" where
  "float_or_zero E t = (if t = [] then Some 0 else py_float E t)"

text \<open>
  The conversions inside the \<open>try\<close> of \<open>validate_and_get_inputs\<close>, in the order the code
  runs them: weight, age, then the height of the unit system. \<open>None\<close> is the \<open>ValueError\<close>.
\<close>

definition read_numbers :: "env \<Rightarrow> app \<Rightarrow> (real \<times> int \<times> real) option" where
  "read_numbers E s =
     (case py_float E (weight_entry s) of
        None \<Rightarrow> None
      | Some w \<Rightarrow>
         (case py_int E (age_entry s) of
            None \<Rightarrow> None
          | Some a \<Rightarrow>
             if unit_system s = ''metric'' then
               (case py_float E (metric_height_entry s) of
                  None \<Rightarrow> None
                | Some h \<Rightarrow> Some (w, a, h))
             else
               (case float_or_zero E (ft_entry s) of
                  None \<Rightarrow> None
                | Some feet \<Rightarrow>
                   (case float_or_zero E (in_entry s) of
                      None \<Rightarrow> None
                    | Some inches \<Rightarrow> Some (w, a, (feet * 12) + inches)))))"

definition validate_and_get_inputs :: "env \<Rightarrow> app \<Rightarrow> inputs option \<times> app" where
  "validate_and_get_inputs E s =
     (let nm = strip (name_entry s) in
      if nm = [] then
        (None, s\<lparr>dynamic_feedback_label :=
           (warning_sign @ '' Please enter your name to personalize the plan.'', COLOR_DANGER)\<rparr>)
      else
        (case read_numbers E s of
           None \<Rightarrow>
             (None, s\<lparr>dynamic_feedback_label :=
                (cross_mark @ '' Invalid input: Please ensure all fields contain valid numbers.'',
                 COLOR_DANGER)\<rparr>)
         | Some (w, a, h) \<Rightarrow>
             if w \<le> 0 \<or> h \<le> 0 then
               (None, s\<lparr>dynamic_feedback_label :=
                  (warning_sign @ '' Weight and Height must be positive numbers.'', COLOR_DANGER)\<rparr>)
             else if \<not> (16 \<le> a \<and> a \<le> 120) then
               (None, s\<lparr>dynamic_feedback_label :=
                  (warning_sign @ '' Age must be between 16 and 120 years.'', COLOR_DANGER)\<rparr>)
             else
               (Some \<lparr> name = nm, weight = w, height = h, age = a, gender = self_gender s,
                       activity = activity_level s, goal = health_goal s,
                       diet = diet_preference s, unit = unit_system s,
                       category = None, bmi = None \<rparr>,
                s\<lparr>dynamic_feedback_label :=
                  (check_mark @ '' Inputs validated. Ready to calculate!'', COLOR_ACCENT_GREEN)\<rparr>)))"

definition calculate_ideal_weight :: "real \<Rightarrow> string \<Rightarrow> string" where
  "calculate_ideal_weight h u =
     (let height_m = (if u = ''imperial'' then h * 0.0254 else h);
          min_weight_kg = BMI_MIN_NORMAL * (height_m ^ 2);
          max_weight_kg = BMI_MAX_NORMAL * (height_m ^ 2);
          (min_weight, max_weight, unit_display) =
            (if u = ''imperial''
             then (min_weight_kg * 2.20462, max_weight_kg * 2.20462, ''lbs'')
             else (min_weight_kg, max_weight_kg, ''kg''))
      in fmt_f 1 min_weight @ '' - '' @ fmt_f 1 max_weight @ '' '' @ unit_display)"

text \<open>
  The ways \<open>calculate_bmi_gui\<close> ends without a result on the screen. \<open>Raised e s\<close>: the
  calculation raised \<open>e\<close>; Tk reports the exception of a callback and the application goes
  on in the state \<open>s\<close>, in which the validated inputs are already the current profile.
  \<open>Not_finite x\<close>: the BMI is the infinity \<open>x\<close>. The program goes on with it and shows
  \<open>inf\<close>; the profile, the history and the categoriser below hold a BMI that is a number,
  so that run is not followed further.
\<close>

datatype stop = Raised error app | Not_finite pyfloat

text \<open>\<open>calculate_bmi_gui\<close>; the flash of the button is not modelled.\<close>

definition calculate_bmi_gui :: "env \<Rightarrow> app \<Rightarrow> stop + app" where
  "calculate_bmi_gui E s =
     (case validate_and_get_inputs E s of
        (None, s1) \<Rightarrow> Inr s1
      | (Some inp, s1) \<Rightarrow>
          (case perform_calculation E (weight inp) (height inp) (unit inp) of
             Inl e \<Rightarrow> Inl (Raised e (s1\<lparr>current_inputs := Some inp\<rparr>))
           | Inr x \<Rightarrow>
               (case x of
                  Fin b \<Rightarrow>
                    (let (cat, color_code, description, bg_color, warning, benefit) =
                           categorize_bmi b (gender inp) (unit inp) (age inp);
                         ideal_range = calculate_ideal_weight (height inp) (unit inp);
                         inp2 = inp\<lparr>category := Some cat, bmi := Some b\<rparr>;
                         s2 = save_history E inp2 b cat (s1\<lparr>current_inputs := Some inp2\<rparr>)
                     in Inr (s2\<lparr> bmi_value_label := fmt_f 2 b, category_label := cat,
                                 ideal_weight_label := ideal_range, goal_diff_label := [],
                                 warning_label := warning, benefit_label := benefit,
                                 result_frame_bg := bg_color \<rparr>))
                | _ \<Rightarrow> Inl (Not_finite x))))"

section \<open>The energy planner\<close>

text \<open>
  The numbers that \<open>generate_diet_plan\<close> computes before it writes the plan: the weight and
  height standardised to kg and cm, the Harris-Benedict rate, the expenditure, the calorie
  target of the goal with its advice line and macro fractions, and the grams.
\<close>

record plan_numbers =
  weight_kg :: real
  height_cm :: real
  bmr :: real
  activity_multiplier :: real
  tdee :: real
  cal_target :: real
  goal_advice :: string
  macros_P :: real
  macros_C :: real
  macros_F :: real
  prot_g :: int
  carb_g :: int
  fat_g :: int

definition plan_numbers_of :: "inputs \<Rightarrow> plan_numbers" where
  "plan_numbers_of inp =
     (let (wkg, hcm) =
            (if unit inp = ''imperial''
             then (weight inp / 2.20462, height inp * 2.54)
             else (weight inp, height inp * 100));
          r = (if gender inp = ''Male''
               then 88.362 + (13.397 * wkg) + (4.799 * hcm) - (5.677 * of_int (age inp))
               else 447.593 + (9.247 * wkg) + (3.098 * hcm) - (4.330 * of_int (age inp)));
          m = dict_get ACTIVITY_MULTIPLIERS (activity inp) 1.55;
          t = r * m;
          (ct, advice, P, C, F) =
            (if goal inp = ''Lose Weight'' then
               (t - 500, ''Targeting a calorie deficit of ~500 kcal/day for safe weight loss.'',
                0.35, 0.40, 0.25)
             else if goal inp = ''Gain Muscle'' then
               (t + 300, ''Targeting a calorie surplus of ~300 kcal/day, focusing heavily on protein.'',
                0.30, 0.50, 0.20)
             else
               (t, ''Targeting maintenance calories (TDEE) for a balanced lifestyle.'',
                0.25, 0.45, 0.30))
      in \<lparr> weight_kg = wkg, height_cm = hcm, bmr = r, activity_multiplier = m, tdee = t,
           cal_target = ct, goal_advice = advice, macros_P = P, macros_C = C, macros_F = F,
           prot_g = py_round ((ct * P) / 4),
           carb_g = py_round ((ct * C) / 4),
           fat_g = py_round ((ct * F) / 9) \<rparr>)"

definition reminder_of :: "inputs \<Rightarrow> string" where
  "reminder_of inp =
     (let cat = (case category inp of Some c \<Rightarrow> c | None \<Rightarrow> ''N/A'') in
      if age inp > 50 then
        [CHR 0xF0, CHR 0x9F, CHR 0x91, CHR 0xB5, CHR 0xF0, CHR 0x9F, CHR 0x91, CHR 0xB4] @
        '' Health Tip: Prioritize calcium and Vitamin D intake for bone health. Daily low-impact exercise is key!''
      else if cat \<in> set [''Overweight'', ''Obesity''] then
        [CHR 0xF0, CHR 0x9F, CHR 0x92, CHR 0xA7] @
        '' Hydration Tip: Drink a large glass of water before every meal to aid digestion and satiety.''
      else if activity inp = ''Extra Active'' then
        [CHR 0xF0, CHR 0x9F, CHR 0x92, CHR 0xA4] @
        '' Recovery Tip: Ensure 7-9 hours of quality sleep nightly to repair muscle tissue.''
      else
        [CHR 0xF0, CHR 0x9F, CHR 0xA7, CHR 0x98] @
        '' Wellness Tip: Manage stress through mindfulness or short breaks. Focus on whole foods, fiber, and consistency.'')"

definition generate_diet_plan :: "inputs \<Rightarrow> string" where
  "generate_diet_plan inp =
     (let cat = (case category inp of Some c \<Rightarrow> c | None \<Rightarrow> ''N/A'');
          b = (case bmi inp of Some x \<Rightarrow> x | None \<Rightarrow> 0);
          N = plan_numbers_of inp;
          header = ''**'' @ name inp @ [CHR 0x27] @ ''s Personalized Health Plan**'' @ nl @ nl;
          details =
            ''**Current Status Summary:**'' @ nl @
            ''  - BMI: '' @ fmt_f 2 b @ '' ('' @ cat @ '')'' @ nl @
            ''  - Age / Gender: '' @ str_int (age inp) @ '' / '' @ gender inp @ nl @
            ''  - Activity Level: '' @ activity inp @ nl @
            ''  - Diet Preference: **'' @ diet inp @ ''**'' @ nl @
            ''  - Health Goal: **'' @ goal inp @ ''**'' @ nl @ nl @
            ''**DAILY NUTRITION TARGETS:**'' @ nl @
            ''  - Calorie Intake: **'' @ fmt_f 0 (cal_target N) @ '' kcal** (TDEE: '' @
               fmt_f 0 (tdee N) @ '') | '' @ goal_advice N @ nl @
            ''  - Macros Breakdown:'' @ nl @
            ''    - Protein: '' @ str_int (prot_g N) @ ''g ('' @ fmt_f 0 (macros_P N * 100) @ ''%)'' @ nl @
            ''    - Carbs: '' @ str_int (carb_g N) @ ''g ('' @ fmt_f 0 (macros_C N * 100) @ ''%)'' @ nl @
            ''    - Fats: '' @ str_int (fat_g N) @ ''g ('' @ fmt_f 0 (macros_F N * 100) @ ''%)'' @ nl @ nl @
            ''*'' @ reminder_of inp @ ''*'' @ nl @
            ''----------------------------------------------'' @ nl;
          (issue_header, plan_content) =
            (if cat = ''Underweight'' then
               (''Addressing the **Underweight** Issue (Focus: Safe Gain)'',
                ''**Diet Focus (Caloric Surplus):** Focus on maximizing nutrient density in every meal. Choose whole grains, healthy oils (avocado, coconut), nuts, and seeds. Liquid calories like smoothies with protein powder are excellent.'' @ nl @
                ''**Activity Focus:** Prioritize **Resistance Training** (Strength) 4 days/week to build muscle mass (muscle weighs more than fat). Limit excessive steady-state cardio to conserve energy.'')
             else if cat = ''Overweight'' \<or> cat = ''Obesity'' then
               (''Addressing the **'' @ cat @ ''** Issue (Focus: Sustainable Loss)'',
                ''**Diet Focus (Caloric Deficit):** Must adhere strictly to the calorie target. Prioritize high-fiber foods (vegetables, legumes) and lean protein sources to maximize satiety. Avoid all high-sugar drinks and refined carbohydrates.'' @ nl @
                ''**Activity Focus:** Start with daily **Low-Impact Cardio** (e.g., brisk walking, swimming) for 30-60 mins, 5 days/week. Add **Strength Training** (2 days/week) to boost metabolism and preserve muscle mass. '')
             else
               (''Addressing **Normal Weight** (Focus: Optimization)'',
                ''**Diet Focus (Balanced Macros):** Rotate your protein and vegetable sources frequently for diverse micronutrients. Adjust '' @ lower (goal inp) @ '' calories weekly based on performance and scale trends. Stay consistent with your **'' @ diet inp @ ''** preference.'' @ nl @
                ''**Activity Focus:** Ideal is a mix of **Cardio and Strength Training** (4-6 total sessions/week) to maintain health and '' @ lower (goal inp) @ ''.'' @ nl @
                ''Sample Meal Tip: Rotate your protein and vegetable sources to ensure a wide spectrum of essential vitamins and minerals. Plan your meals ahead.''))
      in header @ details @ ''**'' @ issue_header @ ''**'' @ nl @ nl @ plan_content)"

section \<open>The query engine\<close>

definition MEDICAL_DISCLAIMER :: string where
  "MEDICAL_DISCLAIMER =
     warning_sign @ '' Disclaimer: I am an AI assistant, not a doctor. **Always consult a qualified healthcare professional** for medical diagnosis or treatment.''"

text \<open>
  \<open>get_personalized_health_report\<close>. The format \<open>:.2f\<close> applied to the default \<open>'N/A'\<close> of
  a missing \<open>bmi\<close> key raises \<open>ValueError\<close>.
\<close>

definition get_personalized_health_report :: "env \<Rightarrow> app \<Rightarrow> error + string" where
  "get_personalized_health_report E s =
     (case current_inputs s of
        None \<Rightarrow> Inr ''No recent health metrics are available. Please calculate your BMI first.''
      | Some data \<Rightarrow>
          (let (weight_str, height_str) =
                 (if unit data = ''imperial''
                  then (float_repr E (weight data) @ '' lbs'', ft_in_str (height data))
                  else (float_repr E (weight data) @ '' kg'', float_repr E (height data) @ '' m''))
           in case bmi data of
                None \<Rightarrow> Inl ValueError
              | Some b \<Rightarrow>
                  Inr (''--- User Health Snapshot ---'' @ nl @
                       ''BMI: '' @ fmt_f 2 b @ '' ('' @
                          (case category data of Some c \<Rightarrow> c | None \<Rightarrow> ''N/A'') @ '')'' @ nl @
                       ''Goal: '' @ goal data @ nl @
                       ''Activity: '' @ activity data @ nl @
                       ''Diet: '' @ diet data @ nl @
                       ''Age/Gender: '' @ str_int (age data) @ '' / '' @ gender data @ nl @
                       ''Weight/Height: '' @ weight_str @ '' / '' @ height_str @ nl @
                       ''Water Intake Today: '' @ str_int (water_intake_ml s) @ ''ml'' @ nl @
                       ''--------------------------'' @ nl)))"

text \<open>The answers of the rules that read the state.\<close>

definition water_status :: "app \<Rightarrow> string" where
  "water_status s =
     (let current = water_intake_ml s; gl = WATER_GOAL_ML in
      if current \<ge> gl then
        ''Fantastic! You've logged **'' @ str_int current @ ''ml** which meets your daily goal of **'' @
        str_int gl @ ''ml**! Stay consistent. You're doing great!''
      else
        (let remaining = gl - current in
         ''You've logged **'' @ str_int current @ ''ml** so far against a goal of **'' @ str_int gl @
         ''ml**. That means you need about **'' @ str_int remaining @ ''ml** more today. Keep sipping!''))"

definition diet_answer :: "app \<Rightarrow> string" where
  "diet_answer s =
     (case current_inputs s of
        None \<Rightarrow>
          ''I need your personal metrics first! Please go to the 'BMI Calculator' tab, calculate your BMI, and then check the 'Health Planner' tab. Once that's done, I can give you personalized advice!''
      | Some data \<Rightarrow>
          (let g = goal data; d = diet data;
               advice =
                 (if g = ''Lose Weight'' then
                    ''Your current goal is **Weight Loss**. Focus on a calorie deficit and high-volume, satiating foods. With your **'' @ d @ ''** preference, ensure plenty of lean protein and fiber to manage hunger and preserve muscle.''
                  else if g = ''Gain Muscle'' then
                    ''Your current goal is **Muscle Gain**. Focus on a slight calorie surplus and prioritize high-quality protein (aim for ~1.6g per kg of body weight). Make sure your **'' @ d @ ''** choice supports enough protein.''
                  else
                    ''Your current goal is to **Maintain Weight**. The key is balance and consistency. Continue following a diverse **'' @ d @ ''** diet and keeping up your current activity level.'')
           in ''Based on your latest inputs:'' @ nl @ ''- Health Goal: **'' @ g @ ''**'' @ nl @
              ''- Diet Preference: **'' @ d @ ''**'' @ nl @ nl @ advice))"

definition exercise_answer :: string where
  "exercise_answer =
     ''For general health, the CDC recommends at least 150 minutes of moderate-intensity activity (e.g., brisk walking) per week, plus muscle-strengthening activities two days a week. We can help you integrate that into your Planner!''"

text \<open>\<open>get_rule_based_response\<close>: the rules in the order of the source, the first match returns.\<close>

definition get_rule_based_response :: "env \<Rightarrow> app \<Rightarrow> string \<Rightarrow> error + string" where
  "get_rule_based_response E s query =
     (let q = lower query in
      if contains q ''water status'' \<or> contains q ''my water'' \<or> contains q ''hydration'' \<or>
         contains q ''how much water'' then
        Inr (water_status s)
      else if contains q ''diet plan'' \<or> contains q ''my goals'' \<or> contains q ''my plan'' then
        Inr (diet_answer s)
      else if contains q ''my health report'' \<or> contains q ''my metrics'' then
        (case get_personalized_health_report E s of
           Inl e \<Rightarrow> Inl e
         | Inr report \<Rightarrow> Inr (''Here is your latest summary:'' @ nl @ report))
      else if contains q ''what is the medical disclaimer'' then
        Inr (MEDICAL_DISCLAIMER @ nl @ nl @
             ''I repeat this for all sensitive health queries. Your safety is paramount. How else can I assist with general health information?'')
      else if contains q ''medication'' \<or> contains q ''drug'' \<or> contains q ''supplements'' then
        Inr (MEDICAL_DISCLAIMER @ nl @ nl @
             ''I can suggest general benefits of common vitamins, but for advice regarding specific **medication or supplements**, you must speak with your pharmacist or prescribing doctor. Do you want to know about general health benefits of Vitamin D?'')
      else if contains q ''diabetes'' \<or> contains q ''blood sugar'' then
        Inr (MEDICAL_DISCLAIMER @ nl @ nl @
             ''Managing blood sugar requires a personalized approach. General tips include: prioritizing low-glycemic index foods, daily moderate exercise, and consistent meal timings. Speak to a doctor or dietitian for a custom plan.'')
      else if contains q ''heart disease'' \<or> contains q ''cardio'' \<or> contains q ''blood pressure'' then
        Inr (MEDICAL_DISCLAIMER @ nl @ nl @
             ''To promote cardiovascular health, focus on a diet low in sodium and saturated fats (like the DASH diet), engage in regular aerobic exercise, and quit smoking. If you have high blood pressure, consult your physician immediately.'')
      else if contains q ''allergies'' \<or> contains q ''intolerance'' then
        Inr (MEDICAL_DISCLAIMER @ nl @ nl @
             ''If you suspect food allergies or intolerances, you should consult an allergist. In the meantime, strict avoidance of suspected triggers is necessary. Make sure to communicate your '' @
             diet_preference s @ '' diet preference to me for safe meal suggestions.'')
      else if contains q ''healthy bmi'' \<or> contains q ''what is bmi'' then
        Inr ''A healthy BMI range is typically **18.5 to 24.9**. While BMI is a quick screening tool, it's essential to consider muscle mass and body fat percentage for a complete picture. Do you want to know the ideal weight range for your height?''
      else if contains q ''foods'' \<and> (contains q ''weight loss'' \<or> contains q ''lose weight'') then
        Inr ''To achieve sustainable weight loss, prioritize **whole, unprocessed foods**. Focus on lean proteins (like chicken, beans, and fish), high-fiber vegetables, and whole grains. Avoid liquid calories and excessive sugar.''
      else if contains q ''exercise'' \<or> contains q ''workout'' then
        Inr exercise_answer
      else if contains q ''balanced diet'' then
        Inr ''A truly balanced diet requires hitting your **macro-nutrient targets** (protein, carbs, fats) while consuming a wide variety of **micronutrients** (vitamins, minerals). Aim for a colorful plate to ensure diversity.''
      else if contains q ''hello'' \<or> contains q ''hi'' then
        Inr ''Hello! I'm your Smart Health Assistant, powered by AI. I can answer your wellness questions, but remember I am not a doctor. What health topic can I assist with?''
      else
        Inr ''I'm generating an informed response for your query. As an AI assistant, I can provide general health information, but please consult a healthcare professional for specific medical advice.'')"

section \<open>The event loop\<close>

text \<open>
  The states the application can be in: the one \<open>__init__\<close> leaves (the calculator frame is
  set up, which calls \<open>update_unit_labels\<close>, then the history is loaded), and those that a
  user action leads to: typing into an entry, choosing an option, selecting a unit (the radio
  buttons run \<open>update_unit_labels\<close>), and the buttons Calculate BMI, Clear and Add Water.
  After a calculation that raised, the application goes on in the state the exception left.
\<close>

inductive reachable :: "app \<Rightarrow> bool" where
  started: "reachable (load_history (update_unit_labels (initial_app f)))"
| name_typed: "reachable s \<Longrightarrow> reachable (s\<lparr>name_entry := t\<rparr>)"
| weight_typed: "reachable s \<Longrightarrow> reachable (s\<lparr>weight_entry := t\<rparr>)"
| metric_height_typed: "reachable s \<Longrightarrow> reachable (s\<lparr>metric_height_entry := t\<rparr>)"
| ft_typed: "reachable s \<Longrightarrow> reachable (s\<lparr>ft_entry := t\<rparr>)"
| in_typed: "reachable s \<Longrightarrow> reachable (s\<lparr>in_entry := t\<rparr>)"
| age_typed: "reachable s \<Longrightarrow> reachable (s\<lparr>age_entry := t\<rparr>)"
| water_add_typed: "reachable s \<Longrightarrow> reachable (s\<lparr>water_add_ml := t\<rparr>)"
| gender_chosen: "reachable s \<Longrightarrow> reachable (s\<lparr>self_gender := t\<rparr>)"
| activity_chosen: "reachable s \<Longrightarrow> reachable (s\<lparr>activity_level := t\<rparr>)"
| goal_chosen: "reachable s \<Longrightarrow> reachable (s\<lparr>health_goal := t\<rparr>)"
| diet_chosen: "reachable s \<Longrightarrow> reachable (s\<lparr>diet_preference := t\<rparr>)"
| unit_selected: "reachable s \<Longrightarrow> reachable (update_unit_labels (s\<lparr>unit_system := u\<rparr>))"
| calculated: "reachable s \<Longrightarrow> calculate_bmi_gui E s = Inr s' \<Longrightarrow> reachable s'"
| calculation_raised:
    "reachable s \<Longrightarrow> calculate_bmi_gui E s = Inl (Raised e s') \<Longrightarrow> reachable s'"
| cleared: "reachable s \<Longrightarrow> reachable (clear_inputs s)"
| water_logged: "reachable s \<Longrightarrow> reachable (log_water_intake E s)"

section \<open>A concrete environment and concrete forms\<close>

text \<open>
  An environment whose conversions and squares are tabulated on the texts and numbers the
  runs below use, where they agree with Python; the clock shows one fixed minute and the
  history file can be written. The text \<open>2.409919865102884e-181\<close> is the \<open>repr\<close> of the
  double \<open>2^(-600)\<close>, whose square is below every positive double.
\<close>

definition test_env :: env where
  "test_env =
     \<lparr> py_float =
         map_of [(''150'', 150), (''5'', 5), (''11.6'', 11.6), (''70'', 70), (''1.75'', 1.75),
                 (''11.5'', 11.5), (''2.409919865102884e-181'', 1 / 2 ^ 600)],
       py_int = map_of [(''30'', 30), (''15'', 15), (''250'', 250)],
       py_pow =
         (\<lambda>x n. dict_get [((1.75, 2), Inr 3.0625), ((71.5, 2), Inr 5112.25),
                             ((1 / 2 ^ 600, 2), Inr 0), ((2 ^ 600, 2), Inl OverflowError)]
                    (x, n) (Inl ValueError)),
       float_repr = (\<lambda>x. dict_get [(150, ''150.0''), (70, ''70.0''), (1.75, ''1.75'')] x []),
       now_str = ''2024-01-01 12:00'',
       file_writable = True \<rparr>"

text \<open>The imperial form filled in with 150 lbs, 5 ft and 11.6 in.\<close>

definition imperial_form :: app where
  "imperial_form =
     (update_unit_labels ((initial_app Missing)\<lparr>unit_system := ''imperial''\<rparr>))
       \<lparr>name_entry := ''Ann'', weight_entry := ''150'', ft_entry := ''5'',
        in_entry := ''11.6'', age_entry := ''30''\<rparr>"




text \<open>Twenty history records, told apart by their dates, oldest first.\<close>

definition sample_history :: "history_record list" where
  "sample_history =
     map (\<lambda>i. \<lparr> rec_date = ''2024-01-'' @ str_nat i, rec_bmi = 22.86,
                 rec_category = ''Normal Weight'', rec_weight = ''70.0 kg'',
                 rec_height = ''1.75 m'' \<rparr>) [1..<21]"

text \<open>
  An imperial profile, with the inputs of the imperial form, its category and the value of
  the BMI formula.
\<close>

definition imperial_profile :: inputs where
  "imperial_profile =
     \<lparr> name = ''Ann'', weight = 150, height = 71.6, age = 30, gender = ''Male'',
       activity = ''Moderately Active'', goal = ''Maintain Weight'', diet = ''Omnivore'',
       unit = ''imperial'', category = Some ''Normal Weight'',
       bmi = Some ((150 / 71.6 ^ 2) * 703) \<rparr>"

text \<open>A metric profile: 70 kg, 1.75 m, a man of 30, moderately active, who wants to lose weight.\<close>

definition metric_profile :: inputs where
  "metric_profile =
     \<lparr> name = ''Ann'', weight = 70, height = 1.75, age = 30, gender = ''Male'',
       activity = ''Moderately Active'', goal = ''Lose Weight'', diet = ''Omnivore'',
       unit = ''metric'', category = Some ''Normal Weight'',
       bmi = Some (70 / 1.75 ^ 2) \<rparr>"

section \<open>Lemmas about double rounding\<close>

lemma py_round_near: "\<bar>of_int (py_round x) - x\<bar> \<le> 1 / 2"
  unfolding py_round_def Let_def by (auto; linarith)
















section \<open>Lemmas about validation and the calculation flow\<close>



lemma read_numbers_metric:
  assumes "read_numbers E s = Some (w, a, h)" "unit_system s = ''metric''"
  shows "py_float E (metric_height_entry s) = Some h"
  using assms by (auto simp add: read_numbers_def split: option.splits if_splits)







section \<open>Properties of the categoriser\<close>

text \<open>
  C2. \<open>categorize_bmi\<close> assigns the category by thresholds that include their lower bound:
  below 18.5 Underweight, from 18.5 and below 25.0 Normal Weight, from 25.0 and below 30.0
  Overweight, from 30.0 Obesity; at 18.5 and 24.9999 the label is Normal Weight, at 25.0 and
  29.9999 Overweight, at 30.0 Obesity.
\<close>

theorem categorize_bmi_thresholds:
  "(b < 18.5 \<longrightarrow> fst (categorize_bmi b g u a) = ''Underweight'') \<and>
   (18.5 \<le> b \<and> b < 25.0 \<longrightarrow> fst (categorize_bmi b g u a) = ''Normal Weight'') \<and>
   (25.0 \<le> b \<and> b < 30.0 \<longrightarrow> fst (categorize_bmi b g u a) = ''Overweight'') \<and>
   (30.0 \<le> b \<longrightarrow> fst (categorize_bmi b g u a) = ''Obesity'') \<and>
   fst (categorize_bmi 18.5 g u a) = ''Normal Weight'' \<and>
   fst (categorize_bmi 24.9999 g u a) = ''Normal Weight'' \<and>
   fst (categorize_bmi 25.0 g u a) = ''Overweight'' \<and>
   fst (categorize_bmi 29.9999 g u a) = ''Overweight'' \<and>
   fst (categorize_bmi 30.0 g u a) = ''Obesity''"
  by (simp add: categorize_bmi_def Let_def)

theorem categorize_bmi_thresholds_witness:
  "(18.5::real) \<le> 18.5 \<and> (18.5::real) < 25.0 \<and>
   fst (categorize_bmi 18.5 ''Male'' ''metric'' 30) = ''Normal Weight'' \<and>
   (17::real) < 18.5 \<and> fst (categorize_bmi 17 ''Male'' ''metric'' 30) = ''Underweight'' \<and>
   (25.0::real) \<le> 27 \<and> (27::real) < 30.0 \<and>
   fst (categorize_bmi 27 ''Male'' ''metric'' 30) = ''Overweight'' \<and>
   (30.0::real) \<le> 31 \<and> fst (categorize_bmi 31 ''Male'' ''metric'' 30) = ''Obesity''"
  using categorize_bmi_thresholds [of "18.5" "''Male''" "''metric''" 30]
        categorize_bmi_thresholds [of 17 "''Male''" "''metric''" 30]
        categorize_bmi_thresholds [of 27 "''Male''" "''metric''" 30]
        categorize_bmi_thresholds [of 31 "''Male''" "''metric''" 30]
  by simp

text \<open>
  C3. The warning text of \<open>categorize_bmi\<close> starts with the severe-risk alert exactly when
  the BMI is below 16.0 or above 35.0. When it does, the colour and the background are the
  maximum-danger ones; otherwise they are those of the category. In both cases the category
  label is the one the thresholds give.
\<close>

theorem severe_alert_iff:
  "case categorize_bmi b g u a of (cat, color, description, bg_color, warning, benefit) \<Rightarrow>
     (prefix (alert_msg b) warning \<longleftrightarrow> (b < 16.0 \<or> b > 35.0)) \<and>
     ((b < 16.0 \<or> b > 35.0) \<longrightarrow> color = COLOR_DANGER \<and> bg_color = ''#FFCDD2'') \<and>
     (\<not> (b < 16.0 \<or> b > 35.0) \<longrightarrow>
        (color, bg_color) =
          (if b < 18.5 then (COLOR_ACCENT_BLUE, ''#E3F2FD'')
           else if b < 25.0 then (COLOR_ACCENT_GREEN, ''#E8F5E9'')
           else if b < 30.0 then (COLOR_WARNING, ''#FFFDE7'')
           else (COLOR_DANGER, ''#FFEBEE''))) \<and>
     cat = (if b < 18.5 then ''Underweight'' else if b < 25.0 then ''Normal Weight''
            else if b < 30.0 then ''Overweight'' else ''Obesity'')"
  by (simp add: categorize_bmi_def Let_def BMI_EXTREME_LOW_def BMI_EXTREME_HIGH_def
        alert_msg_def double_bang_def)

theorem severe_alert_iff_witness:
  "(15::real) < 16.0 \<and> (40::real) > 35.0 \<and> \<not> ((22::real) < 16.0 \<or> (22::real) > 35.0) \<and>
   (case categorize_bmi 15 ''Male'' ''metric'' 30 of
      (cat, color, description, bg_color, warning, benefit) \<Rightarrow>
        prefix (alert_msg 15) warning \<and> color = COLOR_DANGER \<and> bg_color = ''#FFCDD2'' \<and>
        cat = ''Underweight'') \<and>
   (case categorize_bmi 40 ''Male'' ''metric'' 30 of
      (cat, color, description, bg_color, warning, benefit) \<Rightarrow>
        prefix (alert_msg 40) warning \<and> color = COLOR_DANGER \<and> bg_color = ''#FFCDD2'' \<and>
        cat = ''Obesity'') \<and>
   (case categorize_bmi 22 ''Male'' ''metric'' 30 of
      (cat, color, description, bg_color, warning, benefit) \<Rightarrow>
        \<not> prefix (alert_msg 22) warning \<and> color = COLOR_ACCENT_GREEN \<and> cat = ''Normal Weight'')"
  using severe_alert_iff [of 15 "''Male''" "''metric''" 30]
        severe_alert_iff [of 40 "''Male''" "''metric''" 30]
        severe_alert_iff [of 22 "''Male''" "''metric''" 30]
  by (auto split: prod.splits)

section \<open>Properties of the calculation flow\<close>







section \<open>Properties of the history store\<close>

text \<open>
  C6. After \<open>save_history\<close> the history holds at most 20 records. Appending to a history
  of exactly 20 drops its first (oldest) record and keeps the others in their order, the new
  record last; a shorter history only grows by the new record. When the file can be written
  it holds the same list.
\<close>

theorem save_history_cap:
  "length (history (save_history E inp b cat s)) \<le> 20 \<and>
   (length (history s) = 20 \<longrightarrow>
      history (save_history E inp b cat s) = tl (history s) @ [new_record E inp b cat]) \<and>
   (length (history s) < 20 \<longrightarrow>
      history (save_history E inp b cat s) = history s @ [new_record E inp b cat]) \<and>
   (file_writable E \<longrightarrow>
      history_file (save_history E inp b cat s) = Stored (history (save_history E inp b cat s)))"
  by (auto simp add: save_history_def Let_def last_n_def drop_Suc)

theorem save_history_cap_witness:
  "length (history ((initial_app Missing)\<lparr>history := sample_history\<rparr>)) = 20 \<and>
   file_writable test_env \<and>
   length (history (save_history test_env imperial_profile 20.57 ''Normal Weight''
      ((initial_app Missing)\<lparr>history := sample_history\<rparr>))) \<le> 20 \<and>
   history (save_history test_env imperial_profile 20.57 ''Normal Weight''
      ((initial_app Missing)\<lparr>history := sample_history\<rparr>)) =
     tl sample_history @ [new_record test_env imperial_profile 20.57 ''Normal Weight''] \<and>
   history_file (save_history test_env imperial_profile 20.57 ''Normal Weight''
      ((initial_app Missing)\<lparr>history := sample_history\<rparr>)) =
     Stored (tl sample_history @ [new_record test_env imperial_profile 20.57 ''Normal Weight''])"
proof -
  have l: "length (history ((initial_app Missing)\<lparr>history := sample_history\<rparr>)) = 20"
    by (simp add: sample_history_def)
  have f: "file_writable test_env" by (simp add: test_env_def)
  from save_history_cap [of test_env imperial_profile "20.57" "''Normal Weight''"
      "(initial_app Missing)\<lparr>history := sample_history\<rparr>"] l f
  show ?thesis by simp
qed

section \<open>Rounding and the imperial height string\<close>

lemma py_mod_12_bounds: "0 \<le> py_mod h 12 \<and> py_mod h 12 < 12"
proof -
  have "of_int \<lfloor>h / 12\<rfloor> \<le> h / 12" "h / 12 < of_int \<lfloor>h / 12\<rfloor> + 1" by linarith+
  then show ?thesis by (simp add: py_mod_def field_simps)
qed

lemma py_round_twelve:
  assumes "23 / 2 \<le> x" "x < 12"
  shows "py_round x = 12"
proof -
  have f: "\<lfloor>x\<rfloor> = 11" using assms by linarith
  show ?thesis using assms by (simp add: py_round_def f Let_def)
qed

lemma ft_in_str_twelve:
  assumes "0 \<le> h" "23 / 2 \<le> py_mod h 12"
  shows "ft_in_str h = str_int \<lfloor>h / 12\<rfloor> @ '' ft 12 in''"
proof -
  have "py_round (py_mod h 12) = 12"
    using assms py_mod_12_bounds [of h] by (intro py_round_twelve) auto
  moreover have "py_int_of_float (py_floordiv h 12) = \<lfloor>h / 12\<rfloor>"
    using assms by (simp add: py_int_of_float_def py_floordiv_def)
  moreover have "str_int 12 = ''12''" by code_simp
  ultimately show ?thesis by (simp add: ft_in_str_def Let_def)
qed

lemma report_height:
  assumes "current_inputs s = Some inp" "unit inp = ''imperial''" "bmi inp = Some b"
  shows "\<exists>pre post. get_personalized_health_report E s = Inr (pre @ ft_in_str (height inp) @ post)"
proof -
  have "get_personalized_health_report E s =
     Inr ((''--- User Health Snapshot ---'' @ nl @
                       ''BMI: '' @ fmt_f 2 b @ '' ('' @
                          (case category inp of Some c \<Rightarrow> c | None \<Rightarrow> ''N/A'') @ '')'' @ nl @
                       ''Goal: '' @ goal inp @ nl @
                       ''Activity: '' @ activity inp @ nl @
                       ''Diet: '' @ diet inp @ nl @
                       ''Age/Gender: '' @ str_int (age inp) @ '' / '' @ gender inp @ nl @
                       ''Weight/Height: '' @ (float_repr E (weight inp) @ '' lbs'') @ '' / '') @
          ft_in_str (height inp) @
          (nl @ ''Water Intake Today: '' @ str_int (water_intake_ml s) @ ''ml'' @ nl @
                       ''--------------------------'' @ nl))"
    using assms by (simp add: get_personalized_health_report_def)
  then show ?thesis by blast
qed

lemma record_height:
  "unit inp \<noteq> ''metric'' \<Longrightarrow> rec_height (new_record E inp b cat) = ft_in_str (height inp)"
  by (simp add: new_record_def)

text \<open>
  C10. Feet and inches of an imperial height are computed independently, as
  \<open>int(height // 12)\<close> and \<open>round(height % 12)\<close>, so a remainder of 11.5 or more gives an
  inches component of 12: 71.6 total inches, which the form yields for 5 ft and 11.6 in,
  is written \<open>5 ft 12 in\<close>. That string is the height of the history record and the
  height in the health report.
\<close>

theorem inches_component_twelve:
  "(0 \<le> h \<and> 11.5 \<le> py_mod h 12 \<longrightarrow> ft_in_str h = str_int \<lfloor>h / 12\<rfloor> @ '' ft 12 in'') \<and>
   ft_in_str 71.6 = ''5 ft 12 in'' \<and>
   (unit inp \<noteq> ''metric'' \<longrightarrow> rec_height (new_record E inp b cat) = ft_in_str (height inp)) \<and>
   (current_inputs s = Some inp \<and> unit inp = ''imperial'' \<and> bmi inp = Some b \<longrightarrow>
      (\<exists>pre post. get_personalized_health_report E s =
          Inr (pre @ ft_in_str (height inp) @ post)))"
proof (intro conjI impI)
  assume "0 \<le> h \<and> 11.5 \<le> py_mod h 12"
  then show "ft_in_str h = str_int \<lfloor>h / 12\<rfloor> @ '' ft 12 in''"
    by (intro ft_in_str_twelve) simp_all
next
  show "ft_in_str 71.6 = ''5 ft 12 in''" by code_simp
next
  assume "unit inp \<noteq> ''metric''"
  then show "rec_height (new_record E inp b cat) = ft_in_str (height inp)"
    by (rule record_height)
next
  assume "current_inputs s = Some inp \<and> unit inp = ''imperial'' \<and> bmi inp = Some b"
  then show "\<exists>pre post. get_personalized_health_report E s =
          Inr (pre @ ft_in_str (height inp) @ post)"
    by (intro report_height) simp_all
qed

theorem inches_component_twelve_witness:
  "(0::real) \<le> 71.6 \<and> 11.5 \<le> py_mod 71.6 12 \<and>
   map_option height (fst (validate_and_get_inputs test_env imperial_form)) = Some 71.6 \<and>
   unit imperial_profile \<noteq> ''metric'' \<and> height imperial_profile = 71.6 \<and>
   rec_height (new_record test_env imperial_profile 20.57 ''Normal Weight'') = ''5 ft 12 in'' \<and>
   (\<exists>pre post.
      get_personalized_health_report test_env
        ((initial_app Missing)\<lparr>current_inputs := Some imperial_profile\<rparr>) =
        Inr (pre @ ''5 ft 12 in'' @ post))"
proof -
  let ?s = "(initial_app Missing)\<lparr>current_inputs := Some imperial_profile\<rparr>"
  let ?b = "(150 / 71.6 ^ 2) * 703 :: real"
  have m: "(0::real) \<le> 71.6 \<and> 11.5 \<le> py_mod 71.6 12" by (simp add: py_mod_def)
  have v: "map_option height (fst (validate_and_get_inputs test_env imperial_form)) = Some 71.6"
    by code_simp
  have u: "unit imperial_profile \<noteq> ''metric''" "unit imperial_profile = ''imperial''"
    "bmi imperial_profile = Some ?b"
    by (simp_all add: imperial_profile_def)
  have hp: "height imperial_profile = 71.6" by (simp add: imperial_profile_def)
  have c: "current_inputs ?s = Some imperial_profile" by simp
  from inches_component_twelve [of "71.6" imperial_profile test_env "20.57" "''Normal Weight''" ?s]
  have t: "ft_in_str 71.6 = ''5 ft 12 in''" by blast
  have t': "ft_in_str (height imperial_profile) = ''5 ft 12 in''"
    unfolding hp by (rule t)
  from inches_component_twelve [of "71.6" imperial_profile test_env "20.57" "''Normal Weight''" ?s] u
  have r: "rec_height (new_record test_env imperial_profile 20.57 ''Normal Weight'') =
      ft_in_str (height imperial_profile)" by blast
  from inches_component_twelve [of "71.6" imperial_profile test_env ?b "''Normal Weight''" ?s] u c
  have g: "\<exists>pre post. get_personalized_health_report test_env ?s =
          Inr (pre @ ft_in_str (height imperial_profile) @ post)" by blast
  show ?thesis
    using m v u(1) hp r g unfolding t' by (intro conjI) simp_all
qed

section \<open>Properties of the energy planner\<close>

lemma grams_near:
  fixes ct P C F :: real
  assumes "P + C + F = 1"
  shows "\<bar>of_int (py_round ((ct * P) / 4)) * 4 + of_int (py_round ((ct * C) / 4)) * 4 +
          of_int (py_round ((ct * F) / 9)) * 9 - ct\<bar> \<le> 17 / 2"
proof -
  have ct: "ct = ct * P + ct * C + ct * F"
    using assms by (metis distrib_left mult.right_neutral)
  have a: "\<bar>of_int (py_round ((ct * P) / 4)) - (ct * P) / 4\<bar> \<le> 1 / 2" by (rule py_round_near)
  have b: "\<bar>of_int (py_round ((ct * C) / 4)) - (ct * C) / 4\<bar> \<le> 1 / 2" by (rule py_round_near)
  have c: "\<bar>of_int (py_round ((ct * F) / 9)) - (ct * F) / 9\<bar> \<le> 1 / 2" by (rule py_round_near)
  show ?thesis using ct a b c by linarith
qed

text \<open>
  C5. In \<open>generate_diet_plan\<close> the three macro fractions of every goal sum to 1, each gram
  value is within one half of its calorie share divided by 4 (protein, carbohydrate) or 9
  (fat), and so \<open>protein * 4 + carb * 4 + fat * 9\<close> differs from the calorie target by at
  most \<open>(4 + 4 + 9) / 2\<close> kcal.
\<close>

theorem macro_calories_near_target:
  "macros_P (plan_numbers_of inp) + macros_C (plan_numbers_of inp) +
     macros_F (plan_numbers_of inp) = 1 \<and>
   \<bar>of_int (prot_g (plan_numbers_of inp)) -
      (cal_target (plan_numbers_of inp) * macros_P (plan_numbers_of inp)) / 4\<bar> \<le> 1 / 2 \<and>
   \<bar>of_int (carb_g (plan_numbers_of inp)) -
      (cal_target (plan_numbers_of inp) * macros_C (plan_numbers_of inp)) / 4\<bar> \<le> 1 / 2 \<and>
   \<bar>of_int (fat_g (plan_numbers_of inp)) -
      (cal_target (plan_numbers_of inp) * macros_F (plan_numbers_of inp)) / 9\<bar> \<le> 1 / 2 \<and>
   \<bar>of_int (prot_g (plan_numbers_of inp)) * 4 + of_int (carb_g (plan_numbers_of inp)) * 4 +
      of_int (fat_g (plan_numbers_of inp)) * 9 - cal_target (plan_numbers_of inp)\<bar> \<le> 17 / 2"
proof -
  define N where "N = plan_numbers_of inp"
  have g: "prot_g N = py_round ((cal_target N * macros_P N) / 4)"
    "carb_g N = py_round ((cal_target N * macros_C N) / 4)"
    "fat_g N = py_round ((cal_target N * macros_F N) / 9)"
    by (simp_all add: N_def plan_numbers_of_def Let_def split: prod.splits)
  have f: "macros_P N + macros_C N + macros_F N = 1"
    by (simp add: N_def plan_numbers_of_def Let_def split: prod.splits)
  show ?thesis
    unfolding N_def [symmetric] g
    using f py_round_near grams_near [OF f] by (intro conjI) simp_all
qed

theorem macro_calories_near_target_witness:
  "cal_target (plan_numbers_of metric_profile) = 2128.28385 \<and>
   prot_g (plan_numbers_of metric_profile) = 186 \<and>
   carb_g (plan_numbers_of metric_profile) = 213 \<and>
   fat_g (plan_numbers_of metric_profile) = 59 \<and>
   \<bar>(186::real) * 4 + 213 * 4 + 59 * 9 - 2128.28385\<bar> \<le> 17 / 2"
proof -
  have v: "cal_target (plan_numbers_of metric_profile) = 2128.28385"
    "prot_g (plan_numbers_of metric_profile) = 186"
    "carb_g (plan_numbers_of metric_profile) = 213"
    "fat_g (plan_numbers_of metric_profile) = 59"
    by code_simp+
  from macro_calories_near_target [of metric_profile]
  have "\<bar>of_int (prot_g (plan_numbers_of metric_profile)) * 4 +
      of_int (carb_g (plan_numbers_of metric_profile)) * 4 +
      of_int (fat_g (plan_numbers_of metric_profile)) * 9 -
      cal_target (plan_numbers_of metric_profile)\<bar> \<le> (17 / 2 :: real)"
    by blast
  then have "\<bar>(186::real) * 4 + 213 * 4 + 59 * 9 - 2128.28385\<bar> \<le> 17 / 2"
    unfolding v by simp
  with v show ?thesis by blast
qed

text \<open>
  C4. \<open>generate_diet_plan\<close> standardises the weight to kg and the height to cm (imperial:
  pounds divided by 2.20462 and inches times 2.54; metric: metres times 100), computes the
  Harris-Benedict rate of the gender, multiplies it by the multiplier of the activity level
  for the expenditure, and takes as calorie target the expenditure minus 500 for Lose Weight,
  plus 300 for Gain Muscle, and the expenditure itself for Maintain Weight.
\<close>

theorem diet_plan_numbers:
  "(unit inp = ''imperial'' \<longrightarrow>
      weight_kg (plan_numbers_of inp) = weight inp / 2.20462 \<and>
      height_cm (plan_numbers_of inp) = height inp * 2.54) \<and>
   (unit inp = ''metric'' \<longrightarrow>
      weight_kg (plan_numbers_of inp) = weight inp \<and>
      height_cm (plan_numbers_of inp) = height inp * 100) \<and>
   (gender inp = ''Male'' \<longrightarrow>
      bmr (plan_numbers_of inp) =
        88.362 + 13.397 * weight_kg (plan_numbers_of inp) +
        4.799 * height_cm (plan_numbers_of inp) - 5.677 * of_int (age inp)) \<and>
   (gender inp = ''Female'' \<longrightarrow>
      bmr (plan_numbers_of inp) =
        447.593 + 9.247 * weight_kg (plan_numbers_of inp) +
        3.098 * height_cm (plan_numbers_of inp) - 4.330 * of_int (age inp)) \<and>
   (activity inp = ''Sedentary'' \<longrightarrow> activity_multiplier (plan_numbers_of inp) = 1.2) \<and>
   (activity inp = ''Lightly Active'' \<longrightarrow> activity_multiplier (plan_numbers_of inp) = 1.375) \<and>
   (activity inp = ''Moderately Active'' \<longrightarrow> activity_multiplier (plan_numbers_of inp) = 1.55) \<and>
   (activity inp = ''Very Active'' \<longrightarrow> activity_multiplier (plan_numbers_of inp) = 1.725) \<and>
   (activity inp = ''Extra Active'' \<longrightarrow> activity_multiplier (plan_numbers_of inp) = 1.9) \<and>
   tdee (plan_numbers_of inp) = bmr (plan_numbers_of inp) * activity_multiplier (plan_numbers_of inp) \<and>
   (goal inp = ''Lose Weight'' \<longrightarrow>
      cal_target (plan_numbers_of inp) = tdee (plan_numbers_of inp) - 500) \<and>
   (goal inp = ''Gain Muscle'' \<longrightarrow>
      cal_target (plan_numbers_of inp) = tdee (plan_numbers_of inp) + 300) \<and>
   (goal inp = ''Maintain Weight'' \<longrightarrow>
      cal_target (plan_numbers_of inp) = tdee (plan_numbers_of inp))"
  by (simp add: plan_numbers_of_def Let_def dict_get_def ACTIVITY_MULTIPLIERS_def
        split: prod.splits)

theorem diet_plan_numbers_witness:
  "unit metric_profile = ''metric'' \<and> gender metric_profile = ''Male'' \<and>
   activity metric_profile = ''Moderately Active'' \<and> goal metric_profile = ''Lose Weight'' \<and>
   weight_kg (plan_numbers_of metric_profile) = 70 \<and>
   height_cm (plan_numbers_of metric_profile) = 175 \<and>
   bmr (plan_numbers_of metric_profile) = 1695.667 \<and>
   tdee (plan_numbers_of metric_profile) = 1695.667 * 1.55 \<and>
   cal_target (plan_numbers_of metric_profile) = 1695.667 * 1.55 - 500"
proof -
  have p: "unit metric_profile = ''metric''" "gender metric_profile = ''Male''"
    "activity metric_profile = ''Moderately Active''" "goal metric_profile = ''Lose Weight''"
    "weight metric_profile = 70" "height metric_profile = 1.75" "age metric_profile = 30"
    by (simp_all add: metric_profile_def)
  from diet_plan_numbers [of metric_profile] p(1)
  have a: "weight_kg (plan_numbers_of metric_profile) = weight metric_profile"
    "height_cm (plan_numbers_of metric_profile) = height metric_profile * 100"
    by blast+
  from diet_plan_numbers [of metric_profile] p(2)
  have b: "bmr (plan_numbers_of metric_profile) =
        88.362 + 13.397 * weight_kg (plan_numbers_of metric_profile) +
        4.799 * height_cm (plan_numbers_of metric_profile) - 5.677 * of_int (age metric_profile)"
    by blast
  from diet_plan_numbers [of metric_profile] p(3)
  have m: "activity_multiplier (plan_numbers_of metric_profile) = 1.55" by blast
  from diet_plan_numbers [of metric_profile]
  have t: "tdee (plan_numbers_of metric_profile) =
      bmr (plan_numbers_of metric_profile) * activity_multiplier (plan_numbers_of metric_profile)"
    by blast
  from diet_plan_numbers [of metric_profile] p(4)
  have c: "cal_target (plan_numbers_of metric_profile) = tdee (plan_numbers_of metric_profile) - 500"
    by blast
  have a': "weight_kg (plan_numbers_of metric_profile) = 70"
    "height_cm (plan_numbers_of metric_profile) = 175"
    using a p(5,6) by simp_all
  have b': "bmr (plan_numbers_of metric_profile) = 1695.667"
    unfolding b a' p(7) by simp
  show ?thesis using p(1-4) a' b' t m c by simp
qed

section \<open>Properties of the query engine\<close>

text \<open>
  C7, as stated, fails for the bare word: the query \<open>water exercise\<close> contains both
  \<open>water\<close> and \<open>exercise\<close>, matches none of the phrases of rule 1 and is answered by the
  exercise rule.
\<close>

theorem bare_water_word_counterexample:
  "contains (lower ''water exercise'') ''water'' \<and>
   contains (lower ''water exercise'') ''exercise'' \<and>
   get_rule_based_response test_env (initial_app Missing) ''water exercise'' = Inr exercise_answer \<and>
   get_rule_based_response test_env (initial_app Missing) ''water exercise'' \<noteq>
     Inr (water_status (initial_app Missing))"
  by code_simp

lemma water_status_not_exercise: "water_status s \<noteq> exercise_answer"
  by (simp add: water_status_def exercise_answer_def Let_def)

text \<open>
  C7, amended. A query whose lower-cased text contains one of the phrases of rule 1,
  \<open>water status\<close>, \<open>my water\<close>, \<open>hydration\<close> or \<open>how much water\<close>, is answered with the
  water status, whatever else it contains (an exercise keyword included), and never with the
  answer of the exercise rule.
\<close>

theorem water_rule_first:
  "contains (lower query) ''water status'' \<or> contains (lower query) ''my water'' \<or>
   contains (lower query) ''hydration'' \<or> contains (lower query) ''how much water'' \<longrightarrow>
     get_rule_based_response E s query = Inr (water_status s) \<and>
     get_rule_based_response E s query \<noteq> Inr exercise_answer"
  using water_status_not_exercise [of s]
  by (simp add: get_rule_based_response_def Let_def)

theorem water_rule_first_witness:
  "contains (lower ''How much water should I drink during exercise?'') ''how much water'' \<and>
   contains (lower ''How much water should I drink during exercise?'') ''exercise'' \<and>
   get_rule_based_response test_env (initial_app Missing)
       ''How much water should I drink during exercise?'' =
     Inr ''You've logged **0ml** so far against a goal of **2500ml**. That means you need about **2500ml** more today. Keep sipping!''"
proof -
  have c: "contains (lower ''How much water should I drink during exercise?'') ''how much water''"
    "contains (lower ''How much water should I drink during exercise?'') ''exercise''"
    by code_simp+
  have w: "water_status (initial_app Missing) =
    ''You've logged **0ml** so far against a goal of **2500ml**. That means you need about **2500ml** more today. Keep sipping!''"
    by code_simp
  from water_rule_first [of "''How much water should I drink during exercise?''" test_env
      "initial_app Missing"] c(1)
  have "get_rule_based_response test_env (initial_app Missing)
       ''How much water should I drink during exercise?'' = Inr (water_status (initial_app Missing))"
    by blast
  with c w show ?thesis by simp
qed

section \<open>Properties of the hydration state\<close>

text \<open>
  C9, as stated, fails: \<open>clear_inputs\<close>, and \<open>update_unit_labels\<close> which calls it, reset the
  logged millilitres to 0.
\<close>

theorem clear_resets_water_counterexample:
  "water_intake_ml (log_water_intake test_env (initial_app Missing)) = 250 \<and>
   water_intake_ml (clear_inputs (log_water_intake test_env (initial_app Missing))) = 0 \<and>
   water_intake_ml (update_unit_labels (log_water_intake test_env (initial_app Missing))) = 0"
  by code_simp

lemma validate_water:
  "water_intake_ml (snd (validate_and_get_inputs E s)) = water_intake_ml s"
  by (simp add: validate_and_get_inputs_def Let_def split: option.splits prod.splits)

lemma save_history_water:
  "water_intake_ml (save_history E inp b cat s) = water_intake_ml s"
  by (simp add: save_history_def Let_def)

lemma calculate_water:
  assumes "calculate_bmi_gui E s = Inr s'"
  shows "water_intake_ml s' = water_intake_ml s"
proof (cases "validate_and_get_inputs E s")
  case (Pair r s1)
  have s1: "water_intake_ml s1 = water_intake_ml s"
    using validate_water [of E s] Pair by simp
  show ?thesis
  proof (cases r)
    case None
    with Pair assms have "s' = s1" by (simp add: calculate_bmi_gui_def)
    with s1 show ?thesis by simp
  next
    case (Some inp)
    show ?thesis
    proof (cases "perform_calculation E (weight inp) (height inp) (unit inp)")
      case (Inl e)
      with Pair Some assms show ?thesis by (simp add: calculate_bmi_gui_def)
    next
      case (Inr x)
      show ?thesis
      proof (cases x)
        case (Fin b)
        with Inr Pair Some assms s1 show ?thesis
          by (auto simp add: calculate_bmi_gui_def Let_def save_history_water split: prod.splits)
      qed (use Inr Pair Some assms in \<open>simp_all add: calculate_bmi_gui_def\<close>)
    qed
  qed
qed

lemma calculate_raised_water:
  assumes "calculate_bmi_gui E s = Inl (Raised e s')"
  shows "water_intake_ml s' = water_intake_ml s"
proof (cases "validate_and_get_inputs E s")
  case (Pair r s1)
  have s1: "water_intake_ml s1 = water_intake_ml s"
    using validate_water [of E s] Pair by simp
  show ?thesis
  proof (cases r)
    case None
    with Pair assms show ?thesis by (simp add: calculate_bmi_gui_def)
  next
    case (Some inp)
    show ?thesis
    proof (cases "perform_calculation E (weight inp) (height inp) (unit inp)")
      case (Inl e')
      with Pair Some assms s1 show ?thesis by (auto simp add: calculate_bmi_gui_def)
    next
      case (Inr x)
      with Pair Some assms show ?thesis
        by (cases x) (simp_all add: calculate_bmi_gui_def Let_def split: prod.splits)
    qed
  qed
qed

lemma log_water:
  "water_intake_ml (log_water_intake E s) =
     (case py_int E (water_add_ml s) of
        Some a \<Rightarrow> if 0 < a then water_intake_ml s + a else water_intake_ml s
      | None \<Rightarrow> water_intake_ml s)"
  by (simp add: log_water_intake_def Let_def split: option.splits)

lemma clear_water: "water_intake_ml (clear_inputs s) = 0"
  by (simp add: clear_inputs_def)

lemma unit_labels_water: "water_intake_ml (update_unit_labels s) = 0"
  by (simp add: update_unit_labels_def clear_water)

lemma load_history_water: "water_intake_ml (load_history s) = water_intake_ml s"
  by (simp add: load_history_def split: file_state.splits)

lemma reachable_water_nonneg:
  assumes "reachable s"
  shows "0 \<le> water_intake_ml s"
  using assms
proof (induction rule: reachable.induct)
  case (started f)
  show ?case by (simp add: load_history_water unit_labels_water)
next
  case (unit_selected s u)
  show ?case by (simp add: unit_labels_water)
next
  case (calculated s E s')
  then show ?case by (simp add: calculate_water)
next
  case (calculation_raised s E e s')
  then show ?case by (simp add: calculate_raised_water)
next
  case (cleared s)
  show ?case by (simp add: clear_water)
next
  case (water_logged s E)
  then show ?case by (simp add: log_water split: option.splits)
qed simp_all

text \<open>
  C9, amended. The logged millilitres are never negative in a reachable state.
  \<open>log_water_intake\<close> adds the amount typed when it converts to a positive integer and
  changes nothing otherwise; \<open>clear_inputs\<close> and \<open>update_unit_labels\<close> reset the count to 0;
  validation, the calculation, and saving and loading the history leave it as it is. The
  query engine and the health report only return text.
\<close>

theorem hydration_frame:
  "(reachable s \<longrightarrow> 0 \<le> water_intake_ml s) \<and>
   water_intake_ml (log_water_intake E s) =
     (case py_int E (water_add_ml s) of
        Some a \<Rightarrow> if 0 < a then water_intake_ml s + a else water_intake_ml s
      | None \<Rightarrow> water_intake_ml s) \<and>
   water_intake_ml (clear_inputs s) = 0 \<and>
   water_intake_ml (update_unit_labels s) = 0 \<and>
   (calculate_bmi_gui E s = Inr s' \<longrightarrow> water_intake_ml s' = water_intake_ml s) \<and>
   water_intake_ml (snd (validate_and_get_inputs E s)) = water_intake_ml s \<and>
   water_intake_ml (save_history E inp b cat s) = water_intake_ml s \<and>
   water_intake_ml (load_history s) = water_intake_ml s"
  using reachable_water_nonneg [of s] log_water [of E s] clear_water [of s]
    unit_labels_water [of s] calculate_water [of E s s'] validate_water [of E s]
    save_history_water [of E inp b cat s] load_history_water [of s]
  by blast

theorem hydration_frame_witness:
  "reachable (log_water_intake test_env (load_history (update_unit_labels (initial_app Missing)))) \<and>
   py_int test_env (water_add_ml (load_history (update_unit_labels (initial_app Missing)))) = Some 250 \<and>
   water_intake_ml (load_history (update_unit_labels (initial_app Missing))) = 0 \<and>
   water_intake_ml
     (log_water_intake test_env (load_history (update_unit_labels (initial_app Missing)))) = 250 \<and>
   0 \<le> water_intake_ml
     (log_water_intake test_env (load_history (update_unit_labels (initial_app Missing))))"
proof -
  let ?s0 = "load_history (update_unit_labels (initial_app Missing))"
  have r: "reachable (log_water_intake test_env ?s0)"
    by (intro reachable.water_logged reachable.started)
  have p: "py_int test_env (water_add_ml ?s0) = Some 250" by code_simp
  have z: "water_intake_ml ?s0 = 0" by code_simp
  from hydration_frame [of "log_water_intake test_env ?s0"] r
  have n: "0 \<le> water_intake_ml (log_water_intake test_env ?s0)" by blast
  from hydration_frame [of ?s0 test_env]
  have "water_intake_ml (log_water_intake test_env ?s0) =
     (case py_int test_env (water_add_ml ?s0) of
        Some a \<Rightarrow> if 0 < a then water_intake_ml ?s0 + a else water_intake_ml ?s0
      | None \<Rightarrow> water_intake_ml ?s0)"
    by blast
  then have v: "water_intake_ml (log_water_intake test_env ?s0) = 250"
    unfolding p z by simp
  show ?thesis using r p z v n by blast
qed

end
